theory Spec2Isabelle
  imports Main
begin

section \<open>The receipt manager of the indexer service\<close>

text \<open>
  A shallow embedding of \<^verbatim>\<open>packages/indexer-service/src/receipt-manager.ts\<close>: the class
  \<^verbatim>\<open>ReceiptManager\<close> with its cache \<^verbatim>\<open>cachedState\<close> and its four public operations.
  Every method is a function from the manager's state to a result and the state it leaves
  behind. A rejected promise (a \<^verbatim>\<open>throw\<close>, a rejected wallet call, a runtime
  \<^verbatim>\<open>TypeError\<close>) is the left injection of the result; the state returned with it is the
  state at the moment of the throw, since nothing is rolled back.

  The specification calls \<^verbatim>\<open>inputStateChannelMessage\<close> \<^verbatim>\<open>handleInboundMessage\<close> and
  \<^verbatim>\<open>getExistingChannelId\<close> \<^verbatim>\<open>resolveChannelForMessage\<close>; the names here are the source's.
\<close>

subsection \<open>Data\<close>

text \<open>
  JavaScript's \<^verbatim>\<open>undefined\<close> is \<open>None\<close>. A field is optional in the model where its
  declared type is optional or where the code itself tests it for \<^verbatim>\<open>undefined\<close>.
\<close>

record signed_state =
  chainId :: string
  participants :: "string list"
  channelNonce :: nat
  appDefinition :: string
  challengeDuration :: nat
  turnNum :: nat
  signatures :: "string list"

text \<open>
  \<^verbatim>\<open>ChannelConstants\<close>: the object \<^verbatim>\<open>{...firstState}\<close> built by \<^verbatim>\<open>getExistingChannelId\<close>.
  The spread copies every field of the first state; spreading \<^verbatim>\<open>undefined\<close> gives the
  empty object \<^verbatim>\<open>{}\<close>, which is \<open>None\<close> here.
\<close>

type_synonym channel_constants = "signed_state option"

text \<open>
  \<^verbatim>\<open>WalletMessage\<close>: \<^verbatim>\<open>signedStates\<close> is an optional array. An array read out of range
  gives \<^verbatim>\<open>undefined\<close>, and the join branch stores such reads in a new array, so the
  elements of the array are optional.
\<close>

record wallet_message =
  signedStates :: "signed_state option list option"

text \<open>
  \<^verbatim>\<open>WireMessage\<close>: \<^verbatim>\<open>data\<close> is declared \<^verbatim>\<open>unknown\<close> and cast by each reader, to
  \<^verbatim>\<open>SignedState[]\<close> in \<^verbatim>\<open>getExistingChannelId\<close> and to \<^verbatim>\<open>WalletMessage\<close> elsewhere; the
  type of the payload is a parameter.
\<close>

record 'd wire_message =
  sender :: string
  recipient :: string
  data :: 'd

type_synonym payer_message = "wallet_message wire_message"

text \<open>
  An outbox item. \<^verbatim>\<open>params\<close> is tested for \<^verbatim>\<open>undefined\<close> in the join branch
  (\<^verbatim>\<open>if (!postFund2State)\<close>), so it is optional.
\<close>

record outbox_item =
  params :: "payer_message option"

text \<open>
  The status of a channel. The code compares it with \<^verbatim>\<open>'proposed'\<close>, \<^verbatim>\<open>'running'\<close> and
  \<^verbatim>\<open>'closed'\<close> only; \<open>OtherStatus\<close> carries the name of any other status of the wallet.
\<close>

datatype channel_status = Proposed | Running | Closed | OtherStatus string

record allocation_item =
  destination :: string
  amount :: nat

record allocation =
  token :: string
  allocationItems :: "allocation_item list"

record channel_result =
  channelId :: string
  status :: channel_status
  allocations :: "allocation list"
  appData :: string
  channelTurnNum :: nat

datatype state_type = AttestationProvided | QueryDeclined

record attestation =
  responseCID :: string
  signature :: string

text \<open>The third argument of \<^verbatim>\<open>computeNextState\<close>.\<close>

record transition_request =
  toStateType :: state_type
  queryRequestCID :: string
  requestAttestation :: attestation

text \<open>
  The errors. \<open>NoChannelUpdate\<close> is \<^verbatim>\<open>'Received a new state that did nothing'\<close>,
  \<open>MalformedJoinOutbox\<close> is \<^verbatim>\<open>'Expected one or two outbox items after joining channel'\<close>,
  \<open>UndefinedPostFundState\<close> is \<^verbatim>\<open>'Unexpected undefined postFund2State'\<close>,
  \<open>UnrecognizedProtocolTransition\<close> is the error of line 134, \<open>ChannelNotFound\<close> is
  \<^verbatim>\<open>'No channel result for channelId ...'\<close>. \<open>TypeError\<close> is the runtime's error on reading
  a property of \<^verbatim>\<open>undefined\<close>; \<open>CollaboratorError\<close> is whatever a wallet call or an
  imported function throws.
\<close>

datatype error =
    NoChannelUpdate
  | MalformedJoinOutbox
  | UndefinedPostFundState
  | UnrecognizedProtocolTransition
  | ChannelNotFound string
  | TypeError
  | CollaboratorError string

type_synonym 'a result = "error + 'a"

subsection \<open>The collaborators\<close>

text \<open>
  The wallet and the two imported functions are parameters. A wallet operation reads and
  changes the wallet's own state \<open>'w\<close> and either rejects or resolves. \<^verbatim>\<open>pushMessage\<close>
  resolves to \<^verbatim>\<open>{channelResults, outbox}\<close>, \<^verbatim>\<open>joinChannel\<close> and
  \<^verbatim>\<open>updateChannelFunding\<close> to \<^verbatim>\<open>{outbox}\<close>, \<^verbatim>\<open>updateChannel\<close> to
  \<^verbatim>\<open>{channelResult, outbox}\<close> and \<^verbatim>\<open>getState\<close> to \<^verbatim>\<open>{channelResult}\<close>, which
  \<^verbatim>\<open>getChannelResult\<close> tests for \<^verbatim>\<open>undefined\<close>.
\<close>

record 'w collaborators =
  pushMessage :: "wallet_message \<Rightarrow> 'w \<Rightarrow> (channel_result list \<times> outbox_item list) result \<times> 'w"
  joinChannel :: "channel_result \<Rightarrow> 'w \<Rightarrow> outbox_item list result \<times> 'w"
  updateChannelFunding :: "string \<Rightarrow> string \<Rightarrow> nat \<Rightarrow> 'w \<Rightarrow> outbox_item list result \<times> 'w"
  updateChannel ::
    "string \<Rightarrow> string \<Rightarrow> allocation list \<Rightarrow> 'w \<Rightarrow> (channel_result \<times> outbox_item list) result \<times> 'w"
  getState :: "string \<Rightarrow> 'w \<Rightarrow> channel_result option result \<times> 'w"
  calculateChannelId :: "channel_constants \<Rightarrow> string result"
  computeNextState ::
    "string \<Rightarrow> allocation list \<Rightarrow> transition_request \<Rightarrow> (string \<times> allocation list) result"

text \<open>The calls made to the wallet, in order: a record kept beside the state.\<close>

datatype wallet_call =
    PushMessage wallet_message
  | JoinChannel channel_result
  | UpdateChannelFunding string string nat
  | UpdateChannel string string "allocation list"
  | GetState string

text \<open>
  The manager: the cache \<^verbatim>\<open>cachedState\<close> (a key that holds \<^verbatim>\<open>undefined\<close> reads like a
  key that is absent, and the code only reads by key), the wallet's state, and the calls
  made so far. Channel identifiers are the hexadecimal strings of \<^verbatim>\<open>calculateChannelId\<close>;
  the properties every JavaScript object inherits are not keys of the model.
\<close>

record 'w receipt_manager =
  cachedState :: "string \<rightharpoonup> channel_result"
  wallet :: 'w
  calls :: "wallet_call list"

text \<open>\<^verbatim>\<open>xs[i]\<close>: \<^verbatim>\<open>undefined\<close> out of range.\<close>

definition js_index :: "'a list \<Rightarrow> nat \<Rightarrow> 'a option" where
  "js_index xs i = (if i < length xs then Some (xs ! i) else None)"

text \<open>The same read on an array whose elements may be \<^verbatim>\<open>undefined\<close>.\<close>

definition js_index_opt :: "'a option list \<Rightarrow> nat \<Rightarrow> 'a option" where
  "js_index_opt xs i = (if i < length xs then xs ! i else None)"

text \<open>
  Modelled from the spec: \<^verbatim>\<open>BN\<close> of \<^verbatim>\<open>@statechannels/wallet-core\<close> is not under src/.
  The spec reads \<^verbatim>\<open>.map(a => a.amount).reduce(BN.add, BN.from(0))\<close> as "the sum of all
  allocation item amounts" and \<^verbatim>\<open>BN.eq(totalInChannel, 0)\<close> as "total funding is zero":
  amounts are natural numbers, \<^verbatim>\<open>BN.add\<close> is addition and \<^verbatim>\<open>BN.eq\<close> is equality.
\<close>

definition totalInChannel :: "allocation \<Rightarrow> nat" where
  "totalInChannel a = foldl (+) 0 (map amount (allocationItems a))"

subsection \<open>Resolving a channel (lines 183 to 195)\<close>

definition getChannelState ::
  "'w collaborators \<Rightarrow> string \<Rightarrow> 'w receipt_manager
     \<Rightarrow> channel_result option result \<times> 'w receipt_manager" where
  "getChannelState c cid st =
     (case cachedState st cid of
        Some cr \<Rightarrow> (Inr (Some cr), st)
      | None \<Rightarrow>
          (case getState c cid (wallet st) of
             (Inl e, w) \<Rightarrow> (Inl e, st\<lparr>wallet := w, calls := calls st @ [GetState cid]\<rparr>)
           | (Inr r, w) \<Rightarrow>
               (Inr r, st\<lparr>cachedState := (cachedState st)(cid := r), wallet := w,
                            calls := calls st @ [GetState cid]\<rparr>)))"

definition getChannelResult ::
  "'w collaborators \<Rightarrow> string \<Rightarrow> 'w receipt_manager
     \<Rightarrow> channel_result result \<times> 'w receipt_manager" where
  "getChannelResult c cid st =
     (case getChannelState c cid st of
        (Inl e, st1) \<Rightarrow> (Inl e, st1)
      | (Inr None, st1) \<Rightarrow> (Inl (ChannelNotFound cid), st1)
      | (Inr (Some cr), st1) \<Rightarrow> (Inr cr, st1))"

subsection \<open>\<^verbatim>\<open>getExistingChannelId\<close> (lines 40 to 50)\<close>

text \<open>
  \<^verbatim>\<open>calculateChannelId(channelConstants)\<close> is evaluated twice, as in the source. What
  \<^verbatim>\<open>getChannelResult\<close> resolves to is an object, which is never falsy: the
  \<^verbatim>\<open>undefined\<close> arm of the conditional has no input that reaches it.
\<close>

definition getExistingChannelId ::
  "'w collaborators \<Rightarrow> signed_state list wire_message \<Rightarrow> 'w receipt_manager
     \<Rightarrow> string option result \<times> 'w receipt_manager" where
  "getExistingChannelId c message st =
     (let firstState = js_index (data message) 0;
          channelConstants = firstState
      in case calculateChannelId c channelConstants of
           Inl e \<Rightarrow> (Inl e, st)
         | Inr cid \<Rightarrow>
             (case calculateChannelId c channelConstants of
                Inl e \<Rightarrow> (Inl e, st)
              | Inr cid2 \<Rightarrow>
                  (case getChannelResult c cid2 st of
                     (Inl e, st1) \<Rightarrow> (Inl e, st1)
                   | (Inr cr, st1) \<Rightarrow> (Inr (Some cid), st1))))"

subsection \<open>\<^verbatim>\<open>inputStateChannelMessage\<close> (lines 52 to 137)\<close>

text \<open>
  Lines 99 to 116: the reply of the join branch, from the payload of the first outbox item
  of \<^verbatim>\<open>joinChannel\<close> and the post-fund payload. The test of line 100 comes first; then
  \<^verbatim>\<open>.sender\<close> is read from the first payload and \<^verbatim>\<open>signedStates![0]\<close> from both, each a
  \<^verbatim>\<open>TypeError\<close> on \<^verbatim>\<open>undefined\<close>.
\<close>

definition joinReply ::
  "payer_message option \<Rightarrow> payer_message option \<Rightarrow> 'w receipt_manager
     \<Rightarrow> payer_message option result \<times> 'w receipt_manager" where
  "joinReply outboundJoinedChannelState postFund2State st =
     (case postFund2State of
        None \<Rightarrow> (Inl UndefinedPostFundState, st)
      | Some pf \<Rightarrow>
          (case outboundJoinedChannelState of
             None \<Rightarrow> (Inl TypeError, st)
           | Some j \<Rightarrow>
               (case signedStates (data j) of
                  None \<Rightarrow> (Inl TypeError, st)
                | Some js \<Rightarrow>
                    (case signedStates (data pf) of
                       None \<Rightarrow> (Inl TypeError, st)
                     | Some ps \<Rightarrow>
                         (Inr (Some \<lparr>sender = sender j, recipient = recipient j,
                                     data = \<lparr>signedStates = Some [js_index_opt js 0, js_index_opt ps 0]\<rparr>\<rparr>),
                          st)))))"

text \<open>
  Lines 68 to 117: the join branch. \<^verbatim>\<open>channelResult.allocations[0].allocationItems\<close> is a
  \<^verbatim>\<open>TypeError\<close> when there is no allocation, and so is \<^verbatim>\<open>.outbox[0].params\<close> when
  \<^verbatim>\<open>updateChannelFunding\<close> resolves to an empty outbox. The logger is not modelled.
\<close>

definition joinBranch ::
  "'w collaborators \<Rightarrow> channel_result \<Rightarrow> 'w receipt_manager
     \<Rightarrow> payer_message option result \<times> 'w receipt_manager" where
  "joinBranch c channelResult st =
     (case joinChannel c channelResult (wallet st) of
        (Inl e, w) \<Rightarrow> (Inl e, st\<lparr>wallet := w, calls := calls st @ [JoinChannel channelResult]\<rparr>)
      | (Inr outbox, w) \<Rightarrow>
          (let st1 = st\<lparr>wallet := w, calls := calls st @ [JoinChannel channelResult]\<rparr>
           in if length outbox \<noteq> 1 \<and> length outbox \<noteq> 2 then (Inl MalformedJoinOutbox, st1)
              else
                (let outboundJoinedChannelState = params (outbox ! 0)
                 in case js_index (allocations channelResult) 0 of
                      None \<Rightarrow> (Inl TypeError, st1)
                    | Some allocation0 \<Rightarrow>
                        (let total = totalInChannel allocation0;
                             zeroFundPostFund2State =
                               (if length outbox = 2 \<and> total = 0 then params (outbox ! 1) else None)
                         in case zeroFundPostFund2State of
                              Some p \<Rightarrow> joinReply outboundJoinedChannelState (Some p) st1
                            | None \<Rightarrow>
                                (case updateChannelFunding c (channelId channelResult)
                                        (token allocation0) total (wallet st1) of
                                   (Inl e, w2) \<Rightarrow>
                                     (Inl e,
                                      st1\<lparr>wallet := w2,
                                          calls := calls st1 @
                                            [UpdateChannelFunding (channelId channelResult)
                                               (token allocation0) total]\<rparr>)
                                 | (Inr fundingOutbox, w2) \<Rightarrow>
                                     (let st2 =
                                            st1\<lparr>wallet := w2,
                                                calls := calls st1 @
                                                  [UpdateChannelFunding (channelId channelResult)
                                                     (token allocation0) total]\<rparr>
                                      in case js_index fundingOutbox 0 of
                                           None \<Rightarrow> (Inl TypeError, st2)
                                         | Some item \<Rightarrow>
                                             joinReply outboundJoinedChannelState (params item)
                                               st2))))))"

definition inputStateChannelMessage ::
  "'w collaborators \<Rightarrow> payer_message \<Rightarrow> 'w receipt_manager
     \<Rightarrow> payer_message option result \<times> 'w receipt_manager" where
  "inputStateChannelMessage c message st =
     (case pushMessage c (data message) (wallet st) of
        (Inl e, w) \<Rightarrow> (Inl e, st\<lparr>wallet := w, calls := calls st @ [PushMessage (data message)]\<rparr>)
      | (Inr (channelResults, outbox), w) \<Rightarrow>
          (let st1 = st\<lparr>wallet := w, calls := calls st @ [PushMessage (data message)]\<rparr>
           in case js_index channelResults 0 of
                None \<Rightarrow> (Inl NoChannelUpdate, st1)
              | Some channelResult \<Rightarrow>
                  (let st2 = st1\<lparr>cachedState :=
                                    (cachedState st1)(channelId channelResult \<mapsto> channelResult)\<rparr>
                   in if status channelResult = Proposed \<and> length outbox = 0
                      then joinBranch c channelResult st2
                      else if status channelResult = Running \<and> length outbox = 0
                      then (Inr None, st2)
                      else if status channelResult = Closed \<and> length outbox = 1
                      then (Inr (params (outbox ! 0)), st2)
                      else (Inl UnrecognizedProtocolTransition, st2))))"

subsection \<open>\<^verbatim>\<open>nextState\<close>, \<^verbatim>\<open>provideAttestation\<close> and \<^verbatim>\<open>declineQuery\<close> (lines 139 to 181)\<close>

text \<open>
  The pattern \<^verbatim>\<open>outbox: [{ params: outboundMsg }]\<close> is a \<^verbatim>\<open>TypeError\<close> on an empty outbox,
  raised before the cache is written.
\<close>

definition nextState ::
  "'w collaborators \<Rightarrow> state_type \<Rightarrow> string \<Rightarrow> attestation option \<Rightarrow> 'w receipt_manager
     \<Rightarrow> payer_message option result \<times> 'w receipt_manager" where
  "nextState c stateType cid att st =
     (case getChannelResult c cid st of
        (Inl e, st1) \<Rightarrow> (Inl e, st1)
      | (Inr cr, st1) \<Rightarrow>
          (let inputAttestation =
                 (case att of Some a \<Rightarrow> a | None \<Rightarrow> \<lparr>responseCID = '''', signature = ''''\<rparr>)
           in case computeNextState c (appData cr) (allocations cr)
                     \<lparr>toStateType = stateType, queryRequestCID = '''',
                      requestAttestation = inputAttestation\<rparr> of
                Inl e \<Rightarrow> (Inl e, st1)
              | Inr (nextAppData, nextAllocation) \<Rightarrow>
                  (case updateChannel c cid nextAppData nextAllocation (wallet st1) of
                     (Inl e, w) \<Rightarrow>
                       (Inl e,
                        st1\<lparr>wallet := w,
                            calls := calls st1 @ [UpdateChannel cid nextAppData nextAllocation]\<rparr>)
                   | (Inr (channelResult, outbox), w) \<Rightarrow>
                       (let st2 =
                              st1\<lparr>wallet := w,
                                  calls := calls st1 @
                                    [UpdateChannel cid nextAppData nextAllocation]\<rparr>
                        in case js_index outbox 0 of
                             None \<Rightarrow> (Inl TypeError, st2)
                           | Some item \<Rightarrow>
                               (Inr (params item),
                                st2\<lparr>cachedState := (cachedState st2)(cid \<mapsto> channelResult)\<rparr>)))))"

definition provideAttestation ::
  "'w collaborators \<Rightarrow> string \<Rightarrow> attestation \<Rightarrow> 'w receipt_manager
     \<Rightarrow> payer_message option result \<times> 'w receipt_manager" where
  "provideAttestation c cid att st = nextState c AttestationProvided cid (Some att) st"

definition declineQuery ::
  "'w collaborators \<Rightarrow> string \<Rightarrow> 'w receipt_manager
     \<Rightarrow> payer_message option result \<times> 'w receipt_manager" where
  "declineQuery c cid st = nextState c QueryDeclined cid None st"

subsection \<open>Test doubles\<close>

text \<open>
  A scripted wallet for the concrete runs below: each operation resolves (or rejects) with
  a fixed reply and counts the call in the wallet's state. Its \<^verbatim>\<open>calculateChannelId\<close>
  throws on the empty object and otherwise derives the identifier from the chain
  identifier; its \<^verbatim>\<open>computeNextState\<close> keeps the allocations.
\<close>

definition scriptedWallet ::
  "(channel_result list \<times> outbox_item list) result \<Rightarrow> outbox_item list result
     \<Rightarrow> outbox_item list result \<Rightarrow> (channel_result \<times> outbox_item list) result
     \<Rightarrow> channel_result option result \<Rightarrow> nat collaborators" where
  "scriptedWallet pushed joined funded updated got =
     \<lparr>pushMessage = (\<lambda>m w. (pushed, Suc w)),
      joinChannel = (\<lambda>cr w. (joined, Suc w)),
      updateChannelFunding = (\<lambda>cid tok amt w. (funded, Suc w)),
      updateChannel = (\<lambda>cid ad al w. (updated, Suc w)),
      getState = (\<lambda>cid w. (got, Suc w)),
      calculateChannelId =
        (\<lambda>cc. case cc of
                None \<Rightarrow> Inl (CollaboratorError ''calculateChannelId'')
              | Some s \<Rightarrow> Inr (''0x'' @ chainId s)),
      computeNextState =
        (\<lambda>ad al rq.
           Inr (case toStateType rq of
                  AttestationProvided \<Rightarrow> ''attested:'' @ responseCID (requestAttestation rq)
                | QueryDeclined \<Rightarrow> ''declined'',
                al))\<rparr>"

definition unused :: "'a result" where
  "unused = Inl (CollaboratorError ''unused'')"

definition stateAt :: "nat \<Rightarrow> signed_state" where
  "stateAt n =
     \<lparr>chainId = ''1'', participants = [''payer'', ''indexer''], channelNonce = 2,
      appDefinition = ''app'', challengeDuration = 60, turnNum = n, signatures = [''sig'']\<rparr>"

definition payload :: "signed_state option list option \<Rightarrow> payer_message" where
  "payload ss = \<lparr>sender = ''indexer'', recipient = ''payer'', data = \<lparr>signedStates = ss\<rparr>\<rparr>"

definition item :: "nat \<Rightarrow> outbox_item" where
  "item n = \<lparr>params = Some (payload (Some [Some (stateAt n)]))\<rparr>"

definition inbound :: payer_message where
  "inbound = \<lparr>sender = ''payer'', recipient = ''indexer'',
              data = \<lparr>signedStates = Some [Some (stateAt 0)]\<rparr>\<rparr>"

definition alloc :: "string \<Rightarrow> nat list \<Rightarrow> allocation" where
  "alloc tok amounts =
     \<lparr>token = tok,
      allocationItems = map (\<lambda>n. \<lparr>destination = ''d'', amount = n\<rparr>) amounts\<rparr>"

definition channel :: "string \<Rightarrow> channel_status \<Rightarrow> allocation list \<Rightarrow> channel_result" where
  "channel cid s als =
     \<lparr>channelId = cid, status = s, allocations = als, appData = ''query'', channelTurnNum = 0\<rparr>"

definition freshManager :: "nat receipt_manager" where
  "freshManager = \<lparr>cachedState = Map.empty, wallet = 0, calls = []\<rparr>"

definition managerWith :: "channel_result \<Rightarrow> nat receipt_manager" where
  "managerWith cr = \<lparr>cachedState = [channelId cr \<mapsto> cr], wallet = 0, calls = []\<rparr>"

section \<open>Properties\<close>

subsection \<open>Auxiliary facts\<close>

lemmas run_defs =
  inputStateChannelMessage_def joinBranch_def joinReply_def nextState_def provideAttestation_def
  declineQuery_def getChannelResult_def getChannelState_def getExistingChannelId_def
  scriptedWallet_def unused_def stateAt_def payload_def item_def inbound_def alloc_def
  channel_def freshManager_def managerWith_def js_index_def js_index_opt_def totalInChannel_def
  Let_def

lemma joinReply_state: "snd (joinReply a b st) = st"
  by (simp add: joinReply_def split: option.splits)

lemma joinBranch_cachedState: "cachedState (snd (joinBranch c cr st)) = cachedState st"
  by (simp add: joinBranch_def joinReply_state Let_def split: prod.splits sum.splits option.splits)

lemma getChannelState_frame:
  "k \<noteq> cid \<Longrightarrow> cachedState (snd (getChannelState c cid st)) k = cachedState st k"
  by (simp add: getChannelState_def split: prod.splits sum.splits option.splits)

lemma getChannelResult_frame:
  "k \<noteq> cid \<Longrightarrow> cachedState (snd (getChannelResult c cid st)) k = cachedState st k"
proof -
  assume "k \<noteq> cid"
  then have "cachedState (snd (getChannelState c cid st)) k = cachedState st k"
    by (rule getChannelState_frame)
  then show ?thesis
    by (cases "getChannelState c cid st")
       (auto simp: getChannelResult_def split: sum.splits option.splits)
qed

lemma nextState_frame:
  assumes "k \<noteq> cid"
  shows "cachedState (snd (nextState c ty cid att st)) k = cachedState st k"
proof -
  have "cachedState (snd (getChannelResult c cid st)) k = cachedState st k"
    using assms by (rule getChannelResult_frame)
  then show ?thesis
    using assms
    by (cases "getChannelResult c cid st")
       (auto simp: nextState_def Let_def split: sum.splits option.splits prod.splits)
qed

lemma getChannelState_dom:
  "dom (cachedState st) \<subseteq> dom (cachedState (snd (getChannelState c cid st)))"
  by (auto simp: getChannelState_def split: prod.splits sum.splits option.splits)

lemma getChannelResult_dom:
  "dom (cachedState st) \<subseteq> dom (cachedState (snd (getChannelResult c cid st)))"
  using getChannelState_dom [of st c cid]
  by (cases "getChannelState c cid st")
     (auto simp: getChannelResult_def split: sum.splits option.splits)

lemma nextState_dom:
  "dom (cachedState st) \<subseteq> dom (cachedState (snd (nextState c ty cid att st)))"
  using getChannelResult_dom [of st c cid]
  by (cases "getChannelResult c cid st")
     (auto simp: nextState_def Let_def split: sum.splits option.splits prod.splits)

text \<open>
  What \<^verbatim>\<open>inputStateChannelMessage\<close> leaves in the cache depends on the reply of
  \<^verbatim>\<open>pushMessage\<close> alone.
\<close>

lemma inputStateChannelMessage_cache:
  "cachedState (snd (inputStateChannelMessage c m st)) =
     (case pushMessage c (data m) (wallet st) of
        (Inr (cr # crs, ob), w) \<Rightarrow> (cachedState st)(channelId cr \<mapsto> cr)
      | _ \<Rightarrow> cachedState st)"
  by (simp add: inputStateChannelMessage_def joinBranch_cachedState js_index_def Let_def
           split: prod.splits sum.splits list.splits)

text \<open>A proposal with an empty outbox is handled by the join branch, the cache written.\<close>

lemma inputStateChannelMessage_join:
  assumes "pushMessage c (data m) (wallet st) = (Inr (cr # crs, []), w)"
    and "status cr = Proposed"
  shows "inputStateChannelMessage c m st =
           joinBranch c cr
             (st\<lparr>wallet := w, calls := calls st @ [PushMessage (data m)],
                 cachedState := (cachedState st)(channelId cr \<mapsto> cr)\<rparr>)"
  using assms by (simp add: inputStateChannelMessage_def js_index_def Let_def)


subsection \<open>\<^verbatim>\<open>getExistingChannelId\<close> on an unknown channel\<close>

text \<open>
  \<^verbatim>\<open>getExistingChannelId\<close> resolves the channel through \<^verbatim>\<open>getChannelResult\<close>, which
  throws where \<^verbatim>\<open>getChannelState\<close> yields \<^verbatim>\<open>undefined\<close>. So "not found" is never
  returned: the result is the identifier or an error.
\<close>

lemma getExistingChannelId_never_undefined:
  "fst (getExistingChannelId c m st) \<noteq> Inr None"
  by (simp add: getExistingChannelId_def Let_def split: sum.splits prod.splits)

text \<open>
  Claim C1: for a message whose channel identifier has no cache entry and for which the
  wallet's fetch yields no channel result, \<^verbatim>\<open>getExistingChannelId\<close> returns "not found"
  rather than raising. The code raises: with an empty cache and a wallet whose
  \<^verbatim>\<open>getState\<close> resolves to no channel result, the call on a message carrying one signed
  state fails with \<^verbatim>\<open>'No channel result for channelId 0x1.'\<close>, after one \<^verbatim>\<open>getState\<close>
  call.
\<close>

theorem getExistingChannelId_raises_when_unresolvable:
  "fst (getExistingChannelId (scriptedWallet unused unused unused unused (Inr None))
          \<lparr>sender = ''payer'', recipient = ''indexer'', data = [stateAt 0]\<rparr> freshManager)
     = Inl (ChannelNotFound ''0x1'')
   \<and> calls (snd (getExistingChannelId (scriptedWallet unused unused unused unused (Inr None))
          \<lparr>sender = ''payer'', recipient = ''indexer'', data = [stateAt 0]\<rparr> freshManager))
     = [GetState ''0x1'']"
  by (simp add: run_defs)

subsection \<open>Settlement and the status of the channel\<close>





subsection \<open>The join branch and the allocations\<close>




subsection \<open>The zero-fund shortcut\<close>

text \<open>
  Claim C4, as stated: in the join branch, for a channel whose single allocation sums to
  zero, \<^verbatim>\<open>updateChannelFunding\<close> is never called, whether \<^verbatim>\<open>joinChannel\<close> produced one
  outbox item or two. It fails: with a total of zero and one outbox item the funding call
  is made, with amount zero.
\<close>

theorem zero_total_one_item_counterexample:
  "allocations (channel ''0x1'' Proposed [alloc ''eth'' [0, 0]]) = [alloc ''eth'' [0, 0]]
   \<and> totalInChannel (alloc ''eth'' [0, 0]) = 0
   \<and> calls (snd (inputStateChannelMessage
          (scriptedWallet (Inr ([channel ''0x1'' Proposed [alloc ''eth'' [0, 0]]], []))
             (Inr [item 0]) (Inr [item 3]) unused unused)
          inbound freshManager))
       = [PushMessage (data inbound), JoinChannel (channel ''0x1'' Proposed [alloc ''eth'' [0, 0]]),
          UpdateChannelFunding ''0x1'' ''eth'' 0]
   \<and> fst (inputStateChannelMessage
          (scriptedWallet (Inr ([channel ''0x1'' Proposed [alloc ''eth'' [0, 0]]], []))
             (Inr [item 0]) (Inr [item 3]) unused unused)
          inbound freshManager)
       = Inr (Some \<lparr>sender = ''indexer'', recipient = ''payer'',
                    data = \<lparr>signedStates = Some [Some (stateAt 0), Some (stateAt 3)]\<rparr>\<rparr>)"
  by (simp add: run_defs)

text \<open>
  Claim C4, amended: in the join branch, for a channel whose single allocation sums to zero
  and for which \<^verbatim>\<open>joinChannel\<close> produced two outbox items, the second with a payload,
  \<^verbatim>\<open>updateChannelFunding\<close> is not called: the wallet calls are \<^verbatim>\<open>pushMessage\<close> and
  \<^verbatim>\<open>joinChannel\<close> only, and the reply is built from the payloads of the two items.
\<close>

theorem zero_fund_shortcut_skips_funding:
  assumes "pushMessage c (data m) (wallet st) = (Inr (cr # crs, []), w)"
    and "status cr = Proposed"
    and "allocations cr = [a]"
    and "totalInChannel a = 0"
    and "joinChannel c cr w = (Inr [i0, i1], w2)"
    and "params i1 = Some pf"
  shows "calls (snd (inputStateChannelMessage c m st)) =
           calls st @ [PushMessage (data m), JoinChannel cr]
         \<and> fst (inputStateChannelMessage c m st) =
             fst (joinReply (params i0) (Some pf) st)"
  using assms
  by (simp add: inputStateChannelMessage_join [OF assms(1) assms(2)]
        joinBranch_def joinReply_state js_index_def Let_def joinReply_def
        split: option.splits)

theorem zero_fund_shortcut_skips_funding_witness:
  "pushMessage
      (scriptedWallet (Inr ([channel ''0x1'' Proposed [alloc ''eth'' [0, 0]]], []))
         (Inr [item 0, item 3]) unused unused unused)
      (data inbound) (wallet freshManager)
     = (Inr ([channel ''0x1'' Proposed [alloc ''eth'' [0, 0]]], []), 1)
   \<and> status (channel ''0x1'' Proposed [alloc ''eth'' [0, 0]]) = Proposed
   \<and> allocations (channel ''0x1'' Proposed [alloc ''eth'' [0, 0]]) = [alloc ''eth'' [0, 0]]
   \<and> totalInChannel (alloc ''eth'' [0, 0]) = 0
   \<and> joinChannel
        (scriptedWallet (Inr ([channel ''0x1'' Proposed [alloc ''eth'' [0, 0]]], []))
           (Inr [item 0, item 3]) unused unused unused)
        (channel ''0x1'' Proposed [alloc ''eth'' [0, 0]]) 1
       = (Inr [item 0, item 3], 2)
   \<and> params (item 3) = Some (payload (Some [Some (stateAt 3)]))
   \<and> calls (snd (inputStateChannelMessage
          (scriptedWallet (Inr ([channel ''0x1'' Proposed [alloc ''eth'' [0, 0]]], []))
             (Inr [item 0, item 3]) unused unused unused)
          inbound freshManager))
       = [PushMessage (data inbound), JoinChannel (channel ''0x1'' Proposed [alloc ''eth'' [0, 0]])]
   \<and> fst (inputStateChannelMessage
          (scriptedWallet (Inr ([channel ''0x1'' Proposed [alloc ''eth'' [0, 0]]], []))
             (Inr [item 0, item 3]) unused unused unused)
          inbound freshManager)
       = Inr (Some \<lparr>sender = ''indexer'', recipient = ''payer'',
                    data = \<lparr>signedStates = Some [Some (stateAt 0), Some (stateAt 3)]\<rparr>\<rparr>)"
proof -
  let ?cr = "channel ''0x1'' Proposed [alloc ''eth'' [0, 0]]"
  let ?c = "scriptedWallet (Inr ([?cr], [])) (Inr [item 0, item 3]) unused unused unused"
  have p: "pushMessage ?c (data inbound) (wallet freshManager) = (Inr (?cr # [], []), 1)"
    by (simp add: scriptedWallet_def freshManager_def)
  have s: "status ?cr = Proposed" by (simp add: channel_def)
  have a: "allocations ?cr = [alloc ''eth'' [0, 0]]" by (simp add: channel_def)
  have t: "totalInChannel (alloc ''eth'' [0, 0]) = 0"
    by (simp add: totalInChannel_def alloc_def)
  have j: "joinChannel ?c ?cr 1 = (Inr [item 0, item 3], 2)"
    by (simp add: scriptedWallet_def)
  have q: "params (item 3) = Some (payload (Some [Some (stateAt 3)]))"
    by (simp add: item_def)
  have r: "fst (joinReply (params (item 0)) (Some (payload (Some [Some (stateAt 3)]))) freshManager)
             = Inr (Some \<lparr>sender = ''indexer'', recipient = ''payer'',
                    data = \<lparr>signedStates = Some [Some (stateAt 0), Some (stateAt 3)]\<rparr>\<rparr>)"
    by (simp add: joinReply_def item_def payload_def js_index_opt_def)
  have k: "calls freshManager = []" by (simp add: freshManager_def)
  from zero_fund_shortcut_skips_funding [OF p s a t j q] p s a t j q
  show ?thesis by (simp add: r k)
qed

subsection \<open>The reply of the join branch\<close>






subsection \<open>The funding step without an outbox item\<close>

text \<open>
  The test of line 100 catches a funding outbox whose first item has no payload.
\<close>

lemma undefined_funding_params_is_UndefinedPostFundState:
  "fst (inputStateChannelMessage
          (scriptedWallet (Inr ([channel ''0x1'' Proposed [alloc ''eth'' [4, 5]]], []))
             (Inr [item 0]) (Inr [\<lparr>params = None\<rparr>]) unused unused)
          inbound freshManager) = Inl UndefinedPostFundState"
  by (simp add: run_defs)

text \<open>
  Claim C6: in the join branch, when neither the zero-fund shortcut nor the funding step
  yields a post-fund state, in particular when \<^verbatim>\<open>updateChannelFunding\<close> returns an empty
  outbox, the operation fails with \<open>UndefinedPostFundState\<close>. On an empty funding outbox
  the code does not reach that test: \<^verbatim>\<open>.outbox[0].params\<close> reads a property of
  \<^verbatim>\<open>undefined\<close> and the operation fails with a \<^verbatim>\<open>TypeError\<close>, after the three wallet
  calls.
\<close>

theorem empty_funding_outbox_is_TypeError:
  "fst (inputStateChannelMessage
          (scriptedWallet (Inr ([channel ''0x1'' Proposed [alloc ''eth'' [4, 5]]], []))
             (Inr [item 0]) (Inr []) unused unused)
          inbound freshManager) = Inl TypeError
   \<and> calls (snd (inputStateChannelMessage
          (scriptedWallet (Inr ([channel ''0x1'' Proposed [alloc ''eth'' [4, 5]]], []))
             (Inr [item 0]) (Inr []) unused unused)
          inbound freshManager))
     = [PushMessage (data inbound), JoinChannel (channel ''0x1'' Proposed [alloc ''eth'' [4, 5]]),
        UpdateChannelFunding ''0x1'' ''eth'' 9]"
  by (simp add: run_defs)

subsection \<open>The closure branch\<close>

text \<open>
  Claim C7: when the channel result of an inbound message has status \<^verbatim>\<open>'closed'\<close> and the
  outbox of the ingestion has exactly one item, \<^verbatim>\<open>inputStateChannelMessage\<close> returns that
  item's payload unchanged.
\<close>

theorem closure_forwards_outbox_item:
  assumes "pushMessage c (data m) (wallet st) = (Inr (cr # crs, [it]), w)"
    and "status cr = Closed"
  shows "fst (inputStateChannelMessage c m st) = Inr (params it)"
  using assms by (simp add: inputStateChannelMessage_def js_index_def Let_def)

theorem closure_forwards_outbox_item_witness:
  "pushMessage (scriptedWallet (Inr ([channel ''0x1'' Closed []], [item 9])) unused unused unused unused)
       (data inbound) (wallet freshManager)
     = (Inr (channel ''0x1'' Closed [] # [], [item 9]), 1)
   \<and> status (channel ''0x1'' Closed []) = Closed
   \<and> fst (inputStateChannelMessage
          (scriptedWallet (Inr ([channel ''0x1'' Closed []], [item 9])) unused unused unused unused)
          inbound freshManager) = Inr (params (item 9))"
proof -
  have p: "pushMessage (scriptedWallet (Inr ([channel ''0x1'' Closed []], [item 9])) unused unused unused unused)
       (data inbound) (wallet freshManager)
     = (Inr (channel ''0x1'' Closed [] # [], [item 9]), 1)"
    by (simp add: scriptedWallet_def freshManager_def)
  have s: "status (channel ''0x1'' Closed []) = Closed"
    by (simp add: channel_def)
  from closure_forwards_outbox_item [OF p s] p s show ?thesis by simp
qed

subsection \<open>The cache after an inbound message\<close>

text \<open>
  Claim C8: whenever the wallet's ingestion of an inbound message returns a channel result,
  the cache entry of that result's identifier is replaced with it before the branch is
  chosen, whatever the outcome of the call: the state left behind holds the new entry also
  when the call fails, as with an unrecognized transition.
\<close>

theorem cache_written_before_dispatch:
  assumes "pushMessage c (data m) (wallet st) = (Inr (cr # crs, ob), w)"
  shows "cachedState (snd (inputStateChannelMessage c m st)) = (cachedState st)(channelId cr \<mapsto> cr)"
  using assms by (simp add: inputStateChannelMessage_cache)

theorem cache_written_before_dispatch_witness:
  "pushMessage (scriptedWallet (Inr ([channel ''0x1'' Proposed []], [item 0])) unused unused unused unused)
       (data inbound) (wallet freshManager)
     = (Inr (channel ''0x1'' Proposed [] # [], [item 0]), 1)
   \<and> fst (inputStateChannelMessage
          (scriptedWallet (Inr ([channel ''0x1'' Proposed []], [item 0])) unused unused unused unused)
          inbound freshManager) = Inl UnrecognizedProtocolTransition
   \<and> cachedState (snd (inputStateChannelMessage
          (scriptedWallet (Inr ([channel ''0x1'' Proposed []], [item 0])) unused unused unused unused)
          inbound freshManager))
       = (cachedState freshManager)(channelId (channel ''0x1'' Proposed []) \<mapsto> channel ''0x1'' Proposed [])"
proof -
  have p: "pushMessage (scriptedWallet (Inr ([channel ''0x1'' Proposed []], [item 0])) unused unused unused unused)
       (data inbound) (wallet freshManager)
     = (Inr (channel ''0x1'' Proposed [] # [], [item 0]), 1)"
    by (simp add: scriptedWallet_def freshManager_def)
  have e: "fst (inputStateChannelMessage
          (scriptedWallet (Inr ([channel ''0x1'' Proposed []], [item 0])) unused unused unused unused)
          inbound freshManager) = Inl UnrecognizedProtocolTransition"
    by (simp add: inputStateChannelMessage_def scriptedWallet_def freshManager_def js_index_def
          channel_def Let_def)
  from cache_written_before_dispatch [OF p] p e show ?thesis by simp
qed

subsection \<open>Cache reads\<close>

text \<open>
  Claim C9: once a channel result is cached for an identifier, by an earlier write or by
  the fetch of a first resolution, every further resolution of that identifier returns the
  cached result and leaves the manager as it is: the cache, the wallet and the list of
  wallet calls are unchanged, so \<^verbatim>\<open>getState\<close> is not invoked, however often the
  resolution is repeated.
\<close>

theorem cache_reads_are_idempotent:
  "(cachedState st cid = Some cr \<longrightarrow>
      getChannelState c cid st = (Inr (Some cr), st)
    \<and> getChannelResult c cid st = (Inr cr, st)
    \<and> ((\<lambda>s. snd (getChannelState c cid s)) ^^ n) st = st)
   \<and> (getChannelState c cid st = (Inr (Some cr), st1) \<longrightarrow>
        cachedState st1 cid = Some cr \<and> getChannelState c cid st1 = (Inr (Some cr), st1))"
proof -
  have hit: "getChannelState c cid s = (Inr (Some r), s)" if "cachedState s cid = Some r" for s r
    using that by (simp add: getChannelState_def)
  have rep: "((\<lambda>s. snd (getChannelState c cid s)) ^^ n) st = st" if "cachedState st cid = Some cr"
    by (induction n) (simp_all add: hit [OF that])
  have cached: "cachedState st1 cid = Some cr" if "getChannelState c cid st = (Inr (Some cr), st1)"
    using that by (auto simp: getChannelState_def split: option.splits prod.splits sum.splits)
  show ?thesis
    using hit rep cached by (auto simp: getChannelResult_def)
qed

theorem cache_reads_are_idempotent_witness:
  "cachedState (managerWith (channel ''0x1'' Running [])) ''0x1'' = Some (channel ''0x1'' Running [])
   \<and> getChannelState (scriptedWallet unused unused unused unused unused) ''0x1''
        (managerWith (channel ''0x1'' Running []))
       = (Inr (Some (channel ''0x1'' Running [])), managerWith (channel ''0x1'' Running []))
   \<and> getChannelResult (scriptedWallet unused unused unused unused unused) ''0x1''
        (managerWith (channel ''0x1'' Running []))
       = (Inr (channel ''0x1'' Running []), managerWith (channel ''0x1'' Running []))
   \<and> ((\<lambda>s. snd (getChannelState (scriptedWallet unused unused unused unused unused) ''0x1'' s)) ^^ 3)
        (managerWith (channel ''0x1'' Running []))
       = managerWith (channel ''0x1'' Running [])
   \<and> getChannelState (scriptedWallet unused unused unused unused (Inr (Some (channel ''0x1'' Running []))))
        ''0x1'' freshManager
       = (Inr (Some (channel ''0x1'' Running [])),
          \<lparr>cachedState = [''0x1'' \<mapsto> channel ''0x1'' Running []], wallet = 1,
           calls = [GetState ''0x1'']\<rparr>)
   \<and> getChannelState (scriptedWallet unused unused unused unused (Inr (Some (channel ''0x1'' Running []))))
        ''0x1''
        \<lparr>cachedState = [''0x1'' \<mapsto> channel ''0x1'' Running []], wallet = 1,
         calls = [GetState ''0x1'']\<rparr>
       = (Inr (Some (channel ''0x1'' Running [])),
          \<lparr>cachedState = [''0x1'' \<mapsto> channel ''0x1'' Running []], wallet = 1,
           calls = [GetState ''0x1'']\<rparr>)"
proof -
  have h1: "cachedState (managerWith (channel ''0x1'' Running [])) ''0x1''
              = Some (channel ''0x1'' Running [])"
    by (simp add: managerWith_def channel_def)
  have h2: "getChannelState
              (scriptedWallet unused unused unused unused (Inr (Some (channel ''0x1'' Running []))))
              ''0x1'' freshManager
            = (Inr (Some (channel ''0x1'' Running [])),
               \<lparr>cachedState = [''0x1'' \<mapsto> channel ''0x1'' Running []], wallet = 1,
                calls = [GetState ''0x1'']\<rparr>)"
    by (simp add: getChannelState_def scriptedWallet_def freshManager_def)
  from cache_reads_are_idempotent
         [of "managerWith (channel ''0x1'' Running [])" "''0x1''" "channel ''0x1'' Running []"
             "scriptedWallet unused unused unused unused unused" 3]
       cache_reads_are_idempotent
         [of freshManager "''0x1''" "channel ''0x1'' Running []"
             "scriptedWallet unused unused unused unused (Inr (Some (channel ''0x1'' Running [])))"
             _ "\<lparr>cachedState = [''0x1'' \<mapsto> channel ''0x1'' Running []], wallet = 1,
                calls = [GetState ''0x1'']\<rparr>"]
       h1 h2
  show ?thesis by simp
qed

subsection \<open>The frame of the cache\<close>

text \<open>
  \<^verbatim>\<open>getExistingChannelId\<close>, the fourth public operation, writes the key it computes at
  most.
\<close>

lemma getExistingChannelId_frame:
  assumes "\<forall>cid. calculateChannelId c (js_index (data gm) 0) = Inr cid \<longrightarrow> k \<noteq> cid"
  shows "cachedState (snd (getExistingChannelId c gm st)) k = cachedState st k"
proof (cases "calculateChannelId c (js_index (data gm) 0)")
  case (Inl e)
  then show ?thesis by (simp add: getExistingChannelId_def)
next
  case (Inr cid)
  with assms have "k \<noteq> cid" by simp
  then have "cachedState (snd (getChannelResult c cid st)) k = cachedState st k"
    by (rule getChannelResult_frame)
  with Inr show ?thesis
    by (cases "getChannelResult c cid st")
       (auto simp: getExistingChannelId_def split: sum.splits)
qed

text \<open>
  Claim C10: every public operation writes at most one key of the cache.
  \<^verbatim>\<open>provideAttestation\<close> and \<^verbatim>\<open>declineQuery\<close> leave every key other than their
  \<^verbatim>\<open>channelId\<close> argument as it was; \<^verbatim>\<open>inputStateChannelMessage\<close> leaves every key other
  than the identifier of the first channel result of \<^verbatim>\<open>pushMessage\<close> as it was (further
  channel results of the same ingestion are not cached, and nothing is written when there
  is no first result); and no operation removes a key.
\<close>

theorem cache_frame:
  "(k \<noteq> cid \<longrightarrow>
      cachedState (snd (provideAttestation c cid att st)) k = cachedState st k
    \<and> cachedState (snd (declineQuery c cid st)) k = cachedState st k)
   \<and> ((\<forall>cr crs ob w. pushMessage c (data m) (wallet st) = (Inr (cr # crs, ob), w)
                        \<longrightarrow> k \<noteq> channelId cr) \<longrightarrow>
        cachedState (snd (inputStateChannelMessage c m st)) k = cachedState st k)
   \<and> dom (cachedState st) \<subseteq> dom (cachedState (snd (provideAttestation c cid att st)))
   \<and> dom (cachedState st) \<subseteq> dom (cachedState (snd (declineQuery c cid st)))
   \<and> dom (cachedState st) \<subseteq> dom (cachedState (snd (inputStateChannelMessage c m st)))"
proof -
  have a: "k \<noteq> cid \<longrightarrow>
      cachedState (snd (provideAttestation c cid att st)) k = cachedState st k
    \<and> cachedState (snd (declineQuery c cid st)) k = cachedState st k"
    by (simp add: provideAttestation_def declineQuery_def nextState_frame)
  have b: "(\<forall>cr crs ob w. pushMessage c (data m) (wallet st) = (Inr (cr # crs, ob), w)
                        \<longrightarrow> k \<noteq> channelId cr) \<longrightarrow>
        cachedState (snd (inputStateChannelMessage c m st)) k = cachedState st k"
    by (auto simp: inputStateChannelMessage_cache split: prod.splits sum.splits list.splits)
  have d: "dom (cachedState st) \<subseteq> dom (cachedState (snd (inputStateChannelMessage c m st)))"
    by (auto simp: inputStateChannelMessage_cache split: prod.splits sum.splits list.splits)
  show ?thesis
    using a b d by (simp add: provideAttestation_def declineQuery_def nextState_dom)
qed

theorem cache_frame_witness:
  "''0x2'' \<noteq> ''0x1''
   \<and> pushMessage
         (scriptedWallet (Inr ([channel ''0x1'' Running [], channel ''0x2'' Running []], []))
            unused unused (Inr (channel ''0x1'' Closed [], [item 5])) unused)
         (data inbound) (wallet (managerWith (channel ''0x1'' Proposed [])))
       = (Inr ([channel ''0x1'' Running [], channel ''0x2'' Running []], []), 1)
   \<and> cachedState (snd (provideAttestation
         (scriptedWallet (Inr ([channel ''0x1'' Running [], channel ''0x2'' Running []], []))
            unused unused (Inr (channel ''0x1'' Closed [], [item 5])) unused)
         ''0x1'' \<lparr>responseCID = ''Qm123'', signature = ''0xabc''\<rparr>
         (managerWith (channel ''0x1'' Proposed [])))) ''0x2'' = None
   \<and> cachedState (snd (declineQuery
         (scriptedWallet (Inr ([channel ''0x1'' Running [], channel ''0x2'' Running []], []))
            unused unused (Inr (channel ''0x1'' Closed [], [item 5])) unused)
         ''0x1'' (managerWith (channel ''0x1'' Proposed [])))) ''0x2'' = None
   \<and> cachedState (snd (inputStateChannelMessage
         (scriptedWallet (Inr ([channel ''0x1'' Running [], channel ''0x2'' Running []], []))
            unused unused (Inr (channel ''0x1'' Closed [], [item 5])) unused)
         inbound (managerWith (channel ''0x1'' Proposed [])))) ''0x2'' = None
   \<and> cachedState (snd (inputStateChannelMessage
         (scriptedWallet (Inr ([channel ''0x1'' Running [], channel ''0x2'' Running []], []))
            unused unused (Inr (channel ''0x1'' Closed [], [item 5])) unused)
         inbound (managerWith (channel ''0x1'' Proposed [])))) ''0x1''
       = Some (channel ''0x1'' Running [])"
proof -
  have k: "''0x2'' \<noteq> ''0x1''" by simp
  have p: "pushMessage
         (scriptedWallet (Inr ([channel ''0x1'' Running [], channel ''0x2'' Running []], []))
            unused unused (Inr (channel ''0x1'' Closed [], [item 5])) unused)
         (data inbound) (wallet (managerWith (channel ''0x1'' Proposed [])))
       = (Inr ([channel ''0x1'' Running [], channel ''0x2'' Running []], []), 1)"
    by (simp add: scriptedWallet_def managerWith_def)
  have q: "\<forall>cr crs ob w. pushMessage
         (scriptedWallet (Inr ([channel ''0x1'' Running [], channel ''0x2'' Running []], []))
            unused unused (Inr (channel ''0x1'' Closed [], [item 5])) unused)
         (data inbound) (wallet (managerWith (channel ''0x1'' Proposed [])))
       = (Inr (cr # crs, ob), w) \<longrightarrow> ''0x2'' \<noteq> channelId cr"
    unfolding p by (auto simp: channel_def)
  have z: "cachedState (managerWith (channel ''0x1'' Proposed [])) ''0x2'' = None"
    by (simp add: managerWith_def channel_def)
  have y: "cachedState (snd (inputStateChannelMessage
         (scriptedWallet (Inr ([channel ''0x1'' Running [], channel ''0x2'' Running []], []))
            unused unused (Inr (channel ''0x1'' Closed [], [item 5])) unused)
         inbound (managerWith (channel ''0x1'' Proposed [])))) ''0x1''
       = Some (channel ''0x1'' Running [])"
    by (simp add: run_defs)
  from cache_frame
         [of "''0x2''" "''0x1''"
             "scriptedWallet (Inr ([channel ''0x1'' Running [], channel ''0x2'' Running []], []))
                unused unused (Inr (channel ''0x1'' Closed [], [item 5])) unused"
             "\<lparr>responseCID = ''Qm123'', signature = ''0xabc''\<rparr>"
             "managerWith (channel ''0x1'' Proposed [])" inbound]
       k p q z y
  show ?thesis by simp
qed

end
